theory Spec2Isabelle
  imports Main "HOL-Library.Word" "HOL-Library.List_Lexorder"
begin

unbundle bit_operations_syntax

section \<open>Go values\<close>

text \<open>
  A \<open>Slice\<close> is Go's \<open>[]byte\<close>: the list of the bytes it can see.  \<open>ValueLength\<close> is
  \<open>uint64\<close>; \<open>uint\<close> is taken at 64 bits; \<open>int64\<close> is a 64-bit word read with \<open>sint\<close>.
  A Go string is its byte sequence.  A slice is taken to have no spare capacity
  (\<open>cap = len\<close>), so that \<open>s[a:b]\<close> needs \<open>b \<le> len(s)\<close>.
\<close>

type_synonym byte = "8 word"
type_synonym uint = "64 word"
type_synonym uint64 = "64 word"
type_synonym ValueLength = "64 word"
type_synonym Slice = "byte list"
type_synonym gostring = "byte list"

text \<open>
  The error values of the package, and the two ways a call can panic: a failed
  \<open>VELOCYPACK_ASSERT\<close> and a run-time index or slice bound violation.
\<close>

datatype error =
    InvalidTypeError
  | IndexOutOfBoundsError
  | NumberOutOfRangeError
  | NeedAttributeTranslatorError
  | InternalError
  | OverflowError
  | TodoError
  | AssertionFailed
  | RuntimePanic

definition bnd :: "error + 'a \<Rightarrow> ('a \<Rightarrow> error + 'b) \<Rightarrow> error + 'b" where
  "bnd m f = (case m of Inl e \<Rightarrow> Inl e | Inr v \<Rightarrow> f v)"

lemma bnd_Inl [simp]: "bnd (Inl e) f = Inl e"
  by (simp add: bnd_def)

lemma bnd_Inr [simp]: "bnd (Inr v) f = f v"
  by (simp add: bnd_def)

lemma bnd_cong [fundef_cong]:
  "m = m' \<Longrightarrow> (\<And>v. m' = Inr v \<Longrightarrow> f v = f' v) \<Longrightarrow> bnd m f = bnd m' f'"
  by (cases m') (simp_all add: bnd_def)

text \<open>\<open>s[a:]\<close>, \<open>s[a:b]\<close> and \<open>s[i]\<close>, with Go's bound checks.\<close>

definition sliceFrom :: "Slice \<Rightarrow> 64 word \<Rightarrow> error + Slice" where
  "sliceFrom s a = (if unat a \<le> length s then Inr (drop (unat a) s) else Inl RuntimePanic)"

definition sliceRange :: "Slice \<Rightarrow> 64 word \<Rightarrow> 64 word \<Rightarrow> error + Slice" where
  "sliceRange s a b =
     (if unat a \<le> unat b \<and> unat b \<le> length s
      then Inr (take (unat b - unat a) (drop (unat a) s))
      else Inl RuntimePanic)"

definition byteAt :: "Slice \<Rightarrow> nat \<Rightarrow> error + byte" where
  "byteAt s i = (if i < length s then Inr (s ! i) else Inl RuntimePanic)"

text \<open>
  What the functions of \<open>slice.go\<close> take from the rest of the package and from the
  platform: whether \<open>VELOCYPACK_ASSERT\<close> is checked (its definition is not part of the
  sources at hand), the process-wide \<open>AttributeTranslator\<close> (\<open>None\<close> is Go's \<open>nil\<close>; the
  function is its \<open>IDToString\<close>), and the largest length \<open>checkOverflow\<close> accepts.
\<close>

record env =
  asserts :: bool
  AttributeTranslator :: "(uint64 \<Rightarrow> gostring) option"
  addressLimit :: nat

definition VELOCYPACK_ASSERT :: "env \<Rightarrow> bool \<Rightarrow> error + unit" where
  "VELOCYPACK_ASSERT E c = (if asserts E \<and> \<not> c then Inl AssertionFailed else Inr ())"

text \<open>
  Modelled from the spec: \<open>checkOverflow\<close> is not in the sources at hand.  A declared
  length beyond the implementation's address limit fails with \emph{overflow}.
\<close>

definition checkOverflow :: "env \<Rightarrow> ValueLength \<Rightarrow> error + unit" where
  "checkOverflow E l = (if addressLimit E < unat l then Inl OverflowError else Inr ())"

section \<open>Tag tables\<close>

datatype ValueType =
    NoneT | Illegal | Null | Bool | Array | Object | Double | UTCDate | External
  | MinKey | MaxKey | IntT | UInt | SmallInt | String | Binary | BCD | Custom

text \<open>
  Modelled from the spec: the four 256-entry tables are not in the sources at hand.
  \<open>typeMap\<close> is the head-byte grammar of the data model; a head the grammar does not
  list has type \<open>None\<close>.
\<close>

definition typeMap :: "byte \<Rightarrow> ValueType" where
  "typeMap h =
     (if h = 0x00 then NoneT
      else if h \<le> 0x09 then Array
      else if h \<le> 0x12 then Object
      else if h = 0x13 then Array
      else if h = 0x14 then Object
      else if h \<le> 0x16 then NoneT
      else if h = 0x17 then Illegal
      else if h = 0x18 then Null
      else if h \<le> 0x1a then Bool
      else if h = 0x1b then Double
      else if h = 0x1c then UTCDate
      else if h = 0x1d then External
      else if h = 0x1e then MinKey
      else if h = 0x1f then MaxKey
      else if h \<le> 0x27 then IntT
      else if h \<le> 0x2f then UInt
      else if h \<le> 0x3f then SmallInt
      else if h \<le> 0xbf then String
      else if h \<le> 0xc7 then Binary
      else if h \<le> 0xd7 then BCD
      else if h \<le> 0xef then NoneT
      else Custom)"

text \<open>The width of a platform pointer and of an \<open>int64\<close>, in bytes.\<close>

definition charPtrLength :: ValueLength where
  "charPtrLength = 8"

definition int64Length :: ValueLength where
  "int64Length = 8"

text \<open>
  Modelled from the spec: \<open>fixedTypeLengths[h]\<close> is the byte length where the head alone
  fixes it and 0 where the length depends on the payload (the non-empty containers, the
  long string, binary, BCD and custom values with a length field) or the head is not in
  the grammar.  The reserved custom heads \<open>0xf0..0xf3\<close> carry 1, 2, 4 and 8 payload bytes.
\<close>

definition fixedTypeLengths :: "byte \<Rightarrow> ValueLength" where
  "fixedTypeLengths h =
     (if h = 0x00 \<or> h = 0x01 \<or> h = 0x0a then 1
      else if h \<le> 0x16 then 0
      else if h \<le> 0x1a then 1
      else if h = 0x1b \<or> h = 0x1c then 9
      else if h = 0x1d then 1 + charPtrLength
      else if h \<le> 0x1f then 1
      else if h \<le> 0x27 then 1 + ucast (h - 0x1f)
      else if h \<le> 0x2f then 1 + ucast (h - 0x27)
      else if h \<le> 0x3f then 1
      else if h \<le> 0xbe then 1 + ucast (h - 0x40)
      else if h \<le> 0xef then 0
      else if h = 0xf0 then 2
      else if h = 0xf1 then 3
      else if h = 0xf2 then 5
      else if h = 0xf3 then 9
      else 0)"

text \<open>
  Modelled from the spec: \<open>widthMap[h]\<close> is the width of the size field and of an
  offset-table entry, 1, 2, 4, 8 for the four heads of each container family, 0 for the
  empty containers.
\<close>

definition widthMap :: "byte \<Rightarrow> uint" where
  "widthMap h =
     (if h = 0x02 \<or> h = 0x06 \<or> h = 0x0b \<or> h = 0x0f then 1
      else if h = 0x03 \<or> h = 0x07 \<or> h = 0x0c \<or> h = 0x10 then 2
      else if h = 0x04 \<or> h = 0x08 \<or> h = 0x0d \<or> h = 0x11 then 4
      else if h = 0x05 \<or> h = 0x09 \<or> h = 0x0e \<or> h = 0x12 then 8
      else 0)"

text \<open>
  Modelled from the spec: \<open>firstSubMap[h]\<close> is the smallest offset at which member data
  may begin: after the head and the size field, and after the count field where the
  count follows the size field (widths 1, 2, 4 of the containers with an index table).
\<close>

definition firstSubMap :: "byte \<Rightarrow> ValueLength" where
  "firstSubMap h =
     (if h = 0x01 \<or> h = 0x0a then 1
      else if h = 0x02 then 2
      else if h = 0x03 \<or> h = 0x06 \<or> h = 0x0b \<or> h = 0x0f then 3
      else if h = 0x04 \<or> h = 0x07 \<or> h = 0x0c \<or> h = 0x10 then 5
      else if 0x05 \<le> h \<and> h \<le> 0x12 then 9
      else 0)"

section \<open>Integer codecs\<close>

text \<open>
  Modelled from the spec: \<open>readIntegerNonEmpty\<close>, \<open>readIntegerFixed\<close>,
  \<open>readVariableValueLength\<close>, \<open>getVariableValueLength\<close> and \<open>toInt64\<close> are not in the
  sources at hand.  A fixed-width integer is little-endian and unsigned: byte \<open>i\<close> is
  added shifted left by \<open>8 * i\<close> bits into a \<open>uint64\<close>.  Reading past the end of the slice
  panics.
\<close>

fun readLE :: "byte list \<Rightarrow> uint64" where
  "readLE [] = 0"
| "readLE (b # bs) = ucast b + push_bit 8 (readLE bs)"

definition readIntegerNonEmpty :: "Slice \<Rightarrow> uint \<Rightarrow> error + uint64" where
  "readIntegerNonEmpty s len =
     (if unat len \<le> length s then Inr (readLE (take (unat len) s)) else Inl RuntimePanic)"

definition readIntegerFixed :: "Slice \<Rightarrow> uint \<Rightarrow> error + uint64" where
  "readIntegerFixed s len = readIntegerNonEmpty s len"

text \<open>
  A variable-length size carries 7 bits per byte, least significant group first, the
  top bit set on every byte but the last.  Read forwards the bytes are taken from
  \<open>offset\<close> upwards, read backwards from \<open>offset\<close> downwards.  The source passes the view
  \<open>s[offset:]\<close>; the model passes \<open>s\<close> and \<open>offset\<close>, the bytes below a view being bytes
  of \<open>s\<close>.
\<close>

fun readVarBytes :: "byte list \<Rightarrow> nat \<Rightarrow> error + ValueLength" where
  "readVarBytes [] p = Inl RuntimePanic"
| "readVarBytes (b # bs) p =
     (if b AND 0x80 = 0 then Inr (push_bit p (ucast (b AND 0x7f)))
      else bnd (readVarBytes bs (p + 7)) (\<lambda>r. Inr (push_bit p (ucast (b AND 0x7f)) + r)))"

definition readVariableValueLength :: "Slice \<Rightarrow> ValueLength \<Rightarrow> bool \<Rightarrow> error + ValueLength" where
  "readVariableValueLength s offset reverse =
     bnd (sliceFrom s offset) (\<lambda>view.
       if reverse
       then (if view = [] then Inl RuntimePanic
             else readVarBytes (rev (take (Suc (unat offset)) s)) 0)
       else readVarBytes view 0)"

text \<open>The number of bytes the variable-length form of a value takes.\<close>

function getVariableValueLength :: "ValueLength \<Rightarrow> ValueLength" where
  "getVariableValueLength v =
     (if v < 0x80 then 1 else 1 + getVariableValueLength (drop_bit 7 v))"
  by pat_completeness auto
termination
proof (relation "measure unat")
  show "wf (measure (unat :: ValueLength \<Rightarrow> nat))" by simp
next
  fix v :: ValueLength
  assume "\<not> v < 0x80"
  then have "0 < unat v" by (simp add: word_less_nat_alt)
  then have "unat v div 2 ^ 7 < unat v" by simp
  then show "(drop_bit 7 v, v) \<in> measure unat"
    by (simp add: drop_bit_eq_div unat_div)
qed


section \<open>Type classification\<close>

definition head :: "Slice \<Rightarrow> byte" where
  "head s = (if length s > 0 then s ! 0 else 0)"

text \<open>
  Modelled from the spec: \<open>Type\<close> and the \<open>Is...\<close> predicates are not in the sources at
  hand; each looks the head up in \<open>typeMap\<close>.
\<close>

definition Type :: "Slice \<Rightarrow> ValueType" where
  "Type s = typeMap (head s)"

definition IsArray :: "Slice \<Rightarrow> bool" where
  "IsArray s = (Type s = Array)"

definition IsObject :: "Slice \<Rightarrow> bool" where
  "IsObject s = (Type s = Object)"

definition IsString :: "Slice \<Rightarrow> bool" where
  "IsString s = (Type s = String)"

definition IsSmallInt :: "Slice \<Rightarrow> bool" where
  "IsSmallInt s = (Type s = SmallInt)"

definition IsUInt :: "Slice \<Rightarrow> bool" where
  "IsUInt s = (Type s = UInt)"

definition IsBinary :: "Slice \<Rightarrow> bool" where
  "IsBinary s = (Type s = Binary)"

section \<open>ByteSize and Next\<close>

text \<open>The shared body of \<open>case Array, Object\<close> in \<open>ByteSize\<close>.\<close>

definition byteSizeContainer :: "env \<Rightarrow> Slice \<Rightarrow> byte \<Rightarrow> error + ValueLength" where
  "byteSizeContainer E s h =
     (if h = 0x13 \<or> h = 0x14 then readVariableValueLength s 1 False
      else if h = 0x01 \<or> h = 0x0a then Inr 1
      else bnd (VELOCYPACK_ASSERT E (h > 0x00 \<and> h \<le> 0x0e)) (\<lambda>_.
           bnd (sliceFrom s 1) (\<lambda>s1.
           readIntegerNonEmpty s1 (widthMap h))))"

definition byteSizeCustom :: "Slice \<Rightarrow> byte \<Rightarrow> error + ValueLength" where
  "byteSizeCustom s h =
     (if h = 0xf4 \<or> h = 0xf5 \<or> h = 0xf6 then
        bnd (sliceFrom s 1) (\<lambda>s1. bnd (readIntegerFixed s1 1) (\<lambda>v. Inr (2 + v)))
      else if h = 0xf7 \<or> h = 0xf8 \<or> h = 0xf9 then
        bnd (sliceFrom s 1) (\<lambda>s1. bnd (readIntegerFixed s1 2) (\<lambda>v. Inr (3 + v)))
      else if h = 0xfa \<or> h = 0xfb \<or> h = 0xfc then
        bnd (sliceFrom s 1) (\<lambda>s1. bnd (readIntegerFixed s1 4) (\<lambda>v. Inr (5 + v)))
      else if h = 0xfd \<or> h = 0xfe \<or> h = 0xff then
        bnd (sliceFrom s 1) (\<lambda>s1. bnd (readIntegerFixed s1 8) (\<lambda>v. Inr (9 + v)))
      else Inl InternalError)"

definition ByteSize :: "env \<Rightarrow> Slice \<Rightarrow> error + ValueLength" where
  "ByteSize E s =
     (let h = head s; l = fixedTypeLengths h in
      if l \<noteq> 0 then Inr l
      else case Type s of
        Array \<Rightarrow> byteSizeContainer E s h
      | Object \<Rightarrow> byteSizeContainer E s h
      | External \<Rightarrow> Inr (1 + charPtrLength)
      | UTCDate \<Rightarrow> Inr (1 + int64Length)
      | IntT \<Rightarrow> Inr (ucast (1 + (h - 0x1f)))
      | String \<Rightarrow>
          bnd (VELOCYPACK_ASSERT E (h = 0xbf)) (\<lambda>_.
          if h < 0xbf then Inr (ucast h - 0x40)
          else bnd (sliceFrom s 1) (\<lambda>s1.
               bnd (readIntegerFixed s1 8) (\<lambda>v. Inr (1 + 8 + v))))
      | Binary \<Rightarrow>
          bnd (VELOCYPACK_ASSERT E (h \<ge> 0xc0 \<and> h \<le> 0xc7)) (\<lambda>_.
          bnd (sliceFrom s 1) (\<lambda>s1.
          bnd (readIntegerNonEmpty s1 (ucast h - 0xbf)) (\<lambda>v.
          Inr (1 + ucast h - 0xbf + v))))
      | BCD \<Rightarrow>
          (if h \<le> 0xcf then
             bnd (VELOCYPACK_ASSERT E (h \<ge> 0xc8 \<and> h < 0xcf)) (\<lambda>_.
             bnd (sliceFrom s 1) (\<lambda>s1.
             bnd (readIntegerNonEmpty s1 (ucast h - 0xc7)) (\<lambda>v.
             Inr (1 + ucast h - 0xc7 + v))))
           else
             bnd (VELOCYPACK_ASSERT E (h \<ge> 0xd0 \<and> h < 0xd7)) (\<lambda>_.
             bnd (sliceFrom s 1) (\<lambda>s1.
             bnd (readIntegerNonEmpty s1 (ucast h - 0xcf)) (\<lambda>v.
             Inr (1 + ucast h - 0xcf + v)))))
      | Custom \<Rightarrow>
          bnd (VELOCYPACK_ASSERT E (h \<ge> 0xf4)) (\<lambda>_. byteSizeCustom s h)
      | _ \<Rightarrow> Inl InternalError)"

definition Next :: "env \<Rightarrow> Slice \<Rightarrow> error + Slice" where
  "Next E s = bnd (ByteSize E s) (\<lambda>size. sliceFrom s size)"

section \<open>Scalar extraction\<close>



section \<open>Strings and binaries\<close>

definition GetString :: "env \<Rightarrow> Slice \<Rightarrow> error + gostring" where
  "GetString E s =
     (let h = head s in
      if h \<ge> 0x40 \<and> h \<le> 0xbe then
        (let length = h - 0x40 in sliceRange s 1 (ucast (1 + length)))
      else if h = 0xbf then
        bnd (sliceFrom s 1) (\<lambda>s1.
        bnd (readIntegerFixed s1 8) (\<lambda>length.
        bnd (checkOverflow E length) (\<lambda>_.
        sliceRange s (1 + 8) (1 + 8 + length))))
      else Inl InvalidTypeError)"

text \<open>
  \<open>bytes.Compare\<close> orders byte sequences lexicographically, bytes unsigned, a proper
  prefix first.
\<close>

definition bytesCompare :: "byte list \<Rightarrow> byte list \<Rightarrow> int" where
  "bytesCompare a b = (if a = b then 0 else if a < b then - 1 else 1)"

definition CompareString :: "env \<Rightarrow> Slice \<Rightarrow> gostring \<Rightarrow> error + int" where
  "CompareString E s value = bnd (GetString E s) (\<lambda>k. Inr (bytesCompare k value))"

definition IsEqualString :: "env \<Rightarrow> Slice \<Rightarrow> gostring \<Rightarrow> error + bool" where
  "IsEqualString E s value = bnd (GetString E s) (\<lambda>k. Inr (k = value))"

text \<open>The result of \<open>checkOverflow\<close> is dropped in \<open>GetBinary\<close>, as in the source.\<close>

definition GetBinary :: "env \<Rightarrow> Slice \<Rightarrow> error + byte list" where
  "GetBinary E s =
     (if \<not> IsBinary s then Inl InvalidTypeError
      else
        (let h = head s in
         bnd (VELOCYPACK_ASSERT E (h \<ge> 0xc0 \<and> h \<le> 0xc7)) (\<lambda>_.
         (let lengthSize = (ucast (h - 0xbf) :: uint) in
          bnd (sliceFrom s 1) (\<lambda>s1.
          bnd (readIntegerNonEmpty s1 lengthSize) (\<lambda>length.
          (let dropped = checkOverflow E length in
           sliceRange s (1 + lengthSize) (1 + lengthSize + length))))))))"

section \<open>Attribute translation\<close>

text \<open>
  Modelled from the spec: \<open>StringSlice\<close> is not in the sources at hand.  It encodes a
  string as a String value: head \<open>0x40 + length\<close> for up to 126 bytes, else head \<open>0xbf\<close>
  and the length in 8 little-endian bytes, then the bytes.
\<close>

definition StringSlice :: "gostring \<Rightarrow> Slice" where
  "StringSlice k =
     (if length k \<le> 126 then word_of_nat (0x40 + length k) # k
      else 0xbf # map (\<lambda>i. ucast (drop_bit (8 * i) (word_of_nat (length k) :: uint64))) [0..<8] @ k)"

definition getUIntUnchecked :: "Slice \<Rightarrow> error + uint64" where
  "getUIntUnchecked s =
     (let h = head s in
      if h \<ge> 0x28 \<and> h \<le> 0x2f then
        bnd (sliceFrom s 1) (\<lambda>s1. readIntegerNonEmpty s1 (ucast (h - 0x27)))
      else if h \<ge> 0x30 \<and> h \<le> 0x39 then Inr (ucast (h - 0x30))
      else Inr 0)"

text \<open>
  \<open>translateUnchecked\<close> is only called where \<open>AttributeTranslator\<close> is not \<open>nil\<close>; the
  model passes it the translator's \<open>IDToString\<close>.  The \<open>nil\<close> Slice it returns for an
  unknown id is the empty Slice: the callers only read it.
\<close>

definition translateUnchecked :: "(uint64 \<Rightarrow> gostring) \<Rightarrow> Slice \<Rightarrow> error + Slice" where
  "translateUnchecked IDToString s =
     bnd (getUIntUnchecked s) (\<lambda>id.
       (let key = IDToString id in
        if key = [] then Inr [] else Inr (StringSlice key)))"

definition makeKey :: "env \<Rightarrow> Slice \<Rightarrow> error + Slice" where
  "makeKey E s =
     (if IsString s then Inr s
      else if IsSmallInt s \<or> IsUInt s then
        (case AttributeTranslator E of
           None \<Rightarrow> Inl NeedAttributeTranslatorError
         | Some IDToString \<Rightarrow> translateUnchecked IDToString s)
      else Inl InvalidTypeError)"

section \<open>Containers\<close>

definition indexEntrySize :: "env \<Rightarrow> byte \<Rightarrow> error + uint" where
  "indexEntrySize E h =
     bnd (VELOCYPACK_ASSERT E (h > 0x00 \<and> h \<le> 0x12)) (\<lambda>_. Inr (widthMap h))"

text \<open>\<open>fsm <= k && s[k] != 0\<close>: the byte is read only when the first test holds.\<close>

definition fsmAndNonZero :: "ValueLength \<Rightarrow> Slice \<Rightarrow> nat \<Rightarrow> error + bool" where
  "fsmAndNonZero fsm s k =
     (if fsm \<le> word_of_nat k then bnd (byteAt s k) (\<lambda>b. Inr (b \<noteq> 0)) else Inr False)"

definition findDataOffset :: "env \<Rightarrow> Slice \<Rightarrow> byte \<Rightarrow> error + ValueLength" where
  "findDataOffset E s h =
     bnd (VELOCYPACK_ASSERT E (h \<le> 0x12)) (\<lambda>_.
     (let fsm = firstSubMap h in
      bnd (fsmAndNonZero fsm s 2) (\<lambda>c2. if c2 then Inr 2 else
      bnd (fsmAndNonZero fsm s 3) (\<lambda>c3. if c3 then Inr 3 else
      bnd (fsmAndNonZero fsm s 5) (\<lambda>c5. if c5 then Inr 5 else Inr 9)))))"

definition Length :: "env \<Rightarrow> Slice \<Rightarrow> error + ValueLength" where
  "Length E s =
     (if \<not> IsArray s \<and> \<not> IsObject s then Inl InvalidTypeError
      else
        (let h = head s in
         if h = 0x01 \<or> h = 0x0a then Inr 0
         else if h = 0x13 \<or> h = 0x14 then
           bnd (readVariableValueLength s 1 False) (\<lambda>end.
           readVariableValueLength s (end - 1) True)
         else
           bnd (indexEntrySize E h) (\<lambda>offsetSize.
           bnd (VELOCYPACK_ASSERT E (offsetSize > 0)) (\<lambda>_.
           bnd (sliceFrom s 1) (\<lambda>s1.
           bnd (readIntegerNonEmpty s1 offsetSize) (\<lambda>end.
           if h \<le> 0x05 then
             bnd (findDataOffset E s h) (\<lambda>firstSubOffset.
             bnd (sliceFrom s firstSubOffset) (\<lambda>first.
             bnd (ByteSize E first) (\<lambda>sz.
             if sz = 0 then Inl InternalError
             else Inr ((end - firstSubOffset) div sz))))
           else if offsetSize < 8 then
             bnd (sliceFrom s (offsetSize + 1)) (\<lambda>s2. readIntegerNonEmpty s2 offsetSize)
           else
             bnd (sliceFrom s (end - offsetSize)) (\<lambda>s2.
             readIntegerNonEmpty s2 offsetSize)))))))"

text \<open>
  The loop of \<open>getNthOffsetFromCompact\<close>: \<open>for current != index\<close>, stepping over one
  member (a key and its value in an object) each round.
\<close>

lemma word_loop_step:
  fixes index current :: "'a::len word"
  assumes "current \<noteq> index"
  shows "unat (index - (current + 1)) < unat (index - current)"
proof -
  from assms have nz: "index - current \<noteq> 0" by simp
  then have "0 < unat (index - current)" by (simp add: unat_gt_0)
  moreover have "unat (index - current - 1) = unat (index - current) - 1"
    using nz by (rule unat_minus_one)
  ultimately have "unat (index - current - 1) < unat (index - current)"
    by simp
  then show ?thesis by (simp add: diff_diff_eq)
qed

function compactOffsetLoop ::
  "env \<Rightarrow> Slice \<Rightarrow> byte \<Rightarrow> ValueLength \<Rightarrow> ValueLength \<Rightarrow> ValueLength \<Rightarrow> error + ValueLength" where
  "compactOffsetLoop E s h index offset current =
     (if current \<noteq> index then
        bnd (sliceFrom s offset) (\<lambda>sliceAtOffset.
        bnd (ByteSize E sliceAtOffset) (\<lambda>sliceAtOffsetByteSize.
        (let offset1 = offset + sliceAtOffsetByteSize in
         if h = 0x14 then
           bnd (sliceFrom s offset1) (\<lambda>sliceAtOffset2.
           bnd (ByteSize E sliceAtOffset2) (\<lambda>sliceAtOffsetByteSize2.
           compactOffsetLoop E s h index (offset1 + sliceAtOffsetByteSize2) (current + 1)))
         else compactOffsetLoop E s h index offset1 (current + 1))))
      else Inr offset)"
  by pat_completeness auto
termination
  by (relation "measure (\<lambda>(E, s, h, index, offset, current). unat (index - current))")
     (auto simp: word_loop_step)

definition getNthOffsetFromCompact :: "env \<Rightarrow> Slice \<Rightarrow> ValueLength \<Rightarrow> error + ValueLength" where
  "getNthOffsetFromCompact E s index =
     bnd (readVariableValueLength s 1 False) (\<lambda>end.
     bnd (readVariableValueLength s (end - 1) True) (\<lambda>n.
     if index \<ge> n then Inl IndexOutOfBoundsError
     else
       (let h = head s; offset = 1 + getVariableValueLength end in
        compactOffsetLoop E s h index offset 0)))"

definition getNthOffset :: "env \<Rightarrow> Slice \<Rightarrow> ValueLength \<Rightarrow> error + ValueLength" where
  "getNthOffset E s index =
     bnd (VELOCYPACK_ASSERT E (IsArray s \<or> IsObject s)) (\<lambda>_.
     (let h = head s in
      if h = 0x13 \<or> h = 0x14 then getNthOffsetFromCompact E s index
      else if h = 0x01 \<or> h = 0x0a then Inl IndexOutOfBoundsError
      else
        bnd (indexEntrySize E h) (\<lambda>offsetSize.
        bnd (sliceFrom s 1) (\<lambda>s1.
        bnd (readIntegerNonEmpty s1 offsetSize) (\<lambda>end.
        bnd (if h \<le> 0x05 then
               bnd (findDataOffset E s h) (\<lambda>dataOffset.
               bnd (sliceFrom s dataOffset) (\<lambda>first.
               bnd (ByteSize E first) (\<lambda>sz.
               if sz = 0 then Inl InternalError
               else Inr (dataOffset, (end - dataOffset) div sz))))
             else if offsetSize < 8 then
               bnd (sliceFrom s (1 + offsetSize)) (\<lambda>s2.
               bnd (readIntegerNonEmpty s2 offsetSize) (\<lambda>n. Inr (0, n)))
             else
               bnd (sliceFrom s (end - offsetSize)) (\<lambda>s2.
               bnd (readIntegerNonEmpty s2 offsetSize) (\<lambda>n. Inr (0, n))))
          (\<lambda>(dataOffset, n).
        if index \<ge> n then Inl IndexOutOfBoundsError
        else
          bnd (VELOCYPACK_ASSERT E (n > 0)) (\<lambda>_.
          if h \<le> 0x05 \<or> n = 1 then
            bnd (if dataOffset = 0 then findDataOffset E s h else Inr dataOffset) (\<lambda>dataOffset.
            bnd (sliceFrom s dataOffset) (\<lambda>sliceAtDataOffset.
            bnd (ByteSize E sliceAtDataOffset) (\<lambda>sliceAtDataOffsetByteSize.
            Inr (dataOffset + index * sliceAtDataOffsetByteSize))))
          else
            (let offsetSize8Or0 = (if offsetSize = 8 then 8 else 0);
                 ieBase = end - n * offsetSize + index * offsetSize - offsetSize8Or0 in
             bnd (sliceFrom s ieBase) (\<lambda>s3. readIntegerNonEmpty s3 offsetSize)))))))))"

definition getNth :: "env \<Rightarrow> Slice \<Rightarrow> ValueLength \<Rightarrow> error + Slice" where
  "getNth E s index =
     bnd (VELOCYPACK_ASSERT E (IsArray s)) (\<lambda>_.
     bnd (getNthOffset E s index) (\<lambda>offset. sliceFrom s offset))"

definition getNthKey :: "env \<Rightarrow> Slice \<Rightarrow> ValueLength \<Rightarrow> bool \<Rightarrow> error + Slice" where
  "getNthKey E s index translate =
     bnd (VELOCYPACK_ASSERT E (Type s = Object)) (\<lambda>_.
     bnd (getNthOffset E s index) (\<lambda>offset.
     bnd (sliceFrom s offset) (\<lambda>result.
     if translate then makeKey E result else Inr result)))"

definition getNthValue :: "env \<Rightarrow> Slice \<Rightarrow> ValueLength \<Rightarrow> error + Slice" where
  "getNthValue E s index = bnd (getNthKey E s index False) (\<lambda>key. Next E key)"

definition At :: "env \<Rightarrow> Slice \<Rightarrow> ValueLength \<Rightarrow> error + Slice" where
  "At E s index = (if \<not> IsArray s then Inl InvalidTypeError else getNth E s index)"

text \<open>\<open>KeyAt\<close> takes its optional \<open>translate\<close> (default \<open>true\<close>) as an argument.\<close>

definition KeyAt :: "env \<Rightarrow> Slice \<Rightarrow> ValueLength \<Rightarrow> bool \<Rightarrow> error + Slice" where
  "KeyAt E s index translate =
     (if \<not> IsObject s then Inl InvalidTypeError else getNthKey E s index translate)"

definition ValueAt :: "env \<Rightarrow> Slice \<Rightarrow> ValueLength \<Rightarrow> error + Slice" where
  "ValueAt E s index =
     (if \<not> IsObject s then Inl InvalidTypeError
      else
        bnd (getNthKey E s index False) (\<lambda>key.
        bnd (ByteSize E key) (\<lambda>byteSize. sliceFrom key byteSize)))"

section \<open>Attribute search\<close>

text \<open>
  A search returns \<open>Inr None\<close> for Go's \<open>nil, nil\<close> (the None-Slice) and \<open>Inr (Some v)\<close>
  for the value Slice it found.
\<close>

function searchObjectKeyLinearLoop ::
  "env \<Rightarrow> Slice \<Rightarrow> gostring \<Rightarrow> ValueLength \<Rightarrow> ValueLength \<Rightarrow> ValueLength \<Rightarrow> ValueLength
     \<Rightarrow> error + Slice option" where
  "searchObjectKeyLinearLoop E s attribute ieBase offsetSize n index =
     (if index < n then
        (let offset = ieBase + index * offsetSize in
         bnd (sliceFrom s offset) (\<lambda>entry.
         bnd (readIntegerNonEmpty entry offsetSize) (\<lambda>keyOffset.
         bnd (sliceFrom s keyOffset) (\<lambda>key.
         if IsString key then
           bnd (IsEqualString E key attribute) (\<lambda>eq.
           if \<not> eq then
             searchObjectKeyLinearLoop E s attribute ieBase offsetSize n (index + 1)
           else bnd (Next E key) (\<lambda>value. Inr (Some value)))
         else if IsSmallInt key \<or> IsUInt key then
           (case AttributeTranslator E of
              None \<Rightarrow> Inl NeedAttributeTranslatorError
            | Some IDToString \<Rightarrow>
                bnd (translateUnchecked IDToString key) (\<lambda>translated.
                bnd (IsEqualString E translated attribute) (\<lambda>eq.
                if \<not> eq then
                  searchObjectKeyLinearLoop E s attribute ieBase offsetSize n (index + 1)
                else bnd (Next E key) (\<lambda>value. Inr (Some value)))))
         else Inr None))))
      else Inr None)"
  by pat_completeness auto
termination
  by (relation "measure (\<lambda>(E, s, attribute, ieBase, offsetSize, n, index). unat (n - index))")
     (auto simp: word_loop_step)

definition searchObjectKeyLinear ::
  "env \<Rightarrow> Slice \<Rightarrow> gostring \<Rightarrow> ValueLength \<Rightarrow> ValueLength \<Rightarrow> ValueLength
     \<Rightarrow> error + Slice option" where
  "searchObjectKeyLinear E s attribute ieBase offsetSize n =
     searchObjectKeyLinearLoop E s attribute ieBase offsetSize n 0"

text \<open>
  The first half of the body of the binary search loop: the key of entry \<open>index\<close> and
  how it compares with the attribute; \<open>Inr None\<close> is the invalid key that ends the search
  with \<open>nil, nil\<close>.
\<close>

definition binaryCompareKey ::
  "env \<Rightarrow> Slice \<Rightarrow> gostring \<Rightarrow> ValueLength \<Rightarrow> ValueLength \<Rightarrow> ValueLength
     \<Rightarrow> error + (Slice \<times> int) option" where
  "binaryCompareKey E s attribute ieBase offsetSize index =
     (let offset = ieBase + index * offsetSize in
      bnd (sliceFrom s offset) (\<lambda>entry.
      bnd (readIntegerFixed entry offsetSize) (\<lambda>keyOffset.
      bnd (sliceFrom s keyOffset) (\<lambda>key.
      if IsString key then
        bnd (CompareString E key attribute) (\<lambda>res. Inr (Some (key, res)))
      else if IsSmallInt key \<or> IsUInt key then
        (case AttributeTranslator E of
           None \<Rightarrow> Inl NeedAttributeTranslatorError
         | Some IDToString \<Rightarrow>
             bnd (translateUnchecked IDToString key) (\<lambda>translated.
             bnd (CompareString E translated attribute) (\<lambda>res. Inr (Some (key, res)))))
      else Inr None))))"

text \<open>
  The loop \<open>for { ... }\<close> of the binary search has no bound of its own: not returning
  is the value \<open>None\<close>.
\<close>

partial_function (option) searchObjectKeyBinaryLoop ::
  "env \<Rightarrow> Slice \<Rightarrow> gostring \<Rightarrow> ValueLength \<Rightarrow> ValueLength \<Rightarrow> ValueLength \<Rightarrow> ValueLength
     \<Rightarrow> ValueLength \<Rightarrow> (error + Slice option) option" where
  "searchObjectKeyBinaryLoop E s attribute ieBase offsetSize l r index =
     (case binaryCompareKey E s attribute ieBase offsetSize index of
        Inl e \<Rightarrow> Some (Inl e)
      | Inr None \<Rightarrow> Some (Inr None)
      | Inr (Some (key, res)) \<Rightarrow>
          if res = 0 then
            Some (bnd (ByteSize E key) (\<lambda>keySize.
                  bnd (sliceFrom key keySize) (\<lambda>value. Inr (Some value))))
          else if res > 0 \<and> index = 0 then Some (Inr None)
          else
            (let r' = (if res > 0 then index - 1 else r);
                 l' = (if res > 0 then l else index + 1) in
             if r' < l' then Some (Inr None)
             else searchObjectKeyBinaryLoop E s attribute ieBase offsetSize
                    l' r' (l' + ((r' - l') div 2))))"

declare searchObjectKeyBinaryLoop.simps [code]

definition searchObjectKeyBinary ::
  "env \<Rightarrow> Slice \<Rightarrow> gostring \<Rightarrow> ValueLength \<Rightarrow> ValueLength \<Rightarrow> ValueLength
     \<Rightarrow> (error + Slice option) option" where
  "searchObjectKeyBinary E s attribute ieBase n offsetSize =
     (case VELOCYPACK_ASSERT E (n > 0) of
        Inl e \<Rightarrow> Some (Inl e)
      | Inr _ \<Rightarrow>
          (let l = 0; r = n - 1; index = r div 2 in
           searchObjectKeyBinaryLoop E s attribute ieBase offsetSize l r index))"

section \<open>Object iterator\<close>

text \<open>
  The fields \<open>s\<close>, \<open>position\<close>, \<open>size\<close> and \<open>current\<close> of \<open>ObjectIterator\<close>;
  \<open>current = None\<close> is the \<open>nil\<close> Slice, which the iterator tests for.
\<close>

record ObjectIterator =
  it_s :: Slice
  it_position :: ValueLength
  it_size :: ValueLength
  it_current :: "Slice option"

definition isPanic :: "error \<Rightarrow> bool" where
  "isPanic e = (e = AssertionFailed \<or> e = RuntimePanic)"

text \<open>
  \<open>i.current, err = s.KeyAt(0, false)\<close> is followed by \<open>return i, nil\<close>: an error of
  \<open>KeyAt\<close> leaves \<open>current\<close> \<open>nil\<close> and is not returned; a panic is not an error value
  and ends the call.
\<close>

definition NewObjectIterator :: "env \<Rightarrow> Slice \<Rightarrow> error + ObjectIterator" where
  "NewObjectIterator E s =
     (if \<not> IsObject s then Inl InvalidTypeError
      else
        bnd (Length E s) (\<lambda>size.
        (let i = \<lparr>it_s = s, it_position = 0, it_size = size, it_current = None\<rparr> in
         if size > 0 then
           (if head s = 0x14 then
              (case KeyAt E s 0 False of
                 Inl err \<Rightarrow> if isPanic err then Inl err else Inr (i\<lparr>it_current := None\<rparr>)
               | Inr key \<Rightarrow> Inr (i\<lparr>it_current := Some key\<rparr>))
            else Inl TodoError)
         else Inr i)))"

definition ObjectIterator_IsValid :: "ObjectIterator \<Rightarrow> bool" where
  "ObjectIterator_IsValid i = (it_position i < it_size i)"

definition ObjectIterator_Key :: "env \<Rightarrow> ObjectIterator \<Rightarrow> bool \<Rightarrow> error + Slice" where
  "ObjectIterator_Key E i translate =
     (if it_position i \<ge> it_size i then Inl IndexOutOfBoundsError
      else case it_current i of
        Some current \<Rightarrow> (if translate then makeKey E current else Inr current)
      | None \<Rightarrow> getNthKey E (it_s i) (it_position i) translate)"

definition ObjectIterator_Value :: "env \<Rightarrow> ObjectIterator \<Rightarrow> error + Slice" where
  "ObjectIterator_Value E i =
     (if it_position i \<ge> it_size i then Inl IndexOutOfBoundsError
      else case it_current i of
        Some current \<Rightarrow> Next E current
      | None \<Rightarrow> getNthValue E (it_s i) (it_position i))"

text \<open>\<open>Next\<close> of the iterator returns the iterator it leaves behind, or the error.\<close>

definition ObjectIterator_Next :: "env \<Rightarrow> ObjectIterator \<Rightarrow> error + ObjectIterator" where
  "ObjectIterator_Next E i =
     (let i1 = i\<lparr>it_position := it_position i + 1\<rparr> in
      if it_position i1 < it_size i1 \<and> it_current i1 \<noteq> None then
        bnd (Next E (the (it_current i1))) (\<lambda>afterKey.
        bnd (Next E afterKey) (\<lambda>afterValue.
        Inr (i1\<lparr>it_current := Some afterValue\<rparr>)))
      else Inr (i1\<lparr>it_current := None\<rparr>))"

lemma ObjectIterator_Next_fields:
  assumes "ObjectIterator_Next E i = Inr i'"
  shows "it_position i' = it_position i + 1 \<and> it_size i' = it_size i"
proof (cases "it_position i + 1 < it_size i \<and> it_current i \<noteq> None")
  case True
  with assms obtain a b where "i' = i\<lparr>it_position := it_position i + 1, it_current := Some b\<rparr>"
    by (auto simp: ObjectIterator_Next_def Let_def bnd_def split: sum.splits)
  then show ?thesis by simp
next
  case False
  with assms have "i' = i\<lparr>it_position := it_position i + 1, it_current := None\<rparr>"
    by (auto simp: ObjectIterator_Next_def Let_def)
  then show ?thesis by simp
qed

text \<open>The loop \<open>for it.IsValid()\<close> of \<open>getFromCompactObject\<close>.\<close>

function getFromCompactObjectLoop ::
  "env \<Rightarrow> gostring \<Rightarrow> ObjectIterator \<Rightarrow> error + Slice option" where
  "getFromCompactObjectLoop E attribute it =
     (if ObjectIterator_IsValid it then
        bnd (ObjectIterator_Key E it False) (\<lambda>key.
        bnd (makeKey E key) (\<lambda>k.
        bnd (IsEqualString E k attribute) (\<lambda>eq.
        if eq then bnd (Next E key) (\<lambda>value. Inr (Some value))
        else
          bnd (ObjectIterator_Next E it) (\<lambda>it'.
          getFromCompactObjectLoop E attribute it'))))
      else Inr None)"
  by pat_completeness auto
termination
proof (relation "measure (\<lambda>(E, attribute, it). unat (it_size it - it_position it))")
  show "wf (measure (\<lambda>(E :: env, attribute :: gostring, it).
          unat (it_size it - it_position it)))"
    by simp
next
  fix E :: env and attribute :: gostring and it it' :: ObjectIterator
  assume valid: "ObjectIterator_IsValid it" and nxt: "ObjectIterator_Next E it = Inr it'"
  from valid have "it_position it \<noteq> it_size it"
    by (auto simp: ObjectIterator_IsValid_def)
  then have "unat (it_size it - (it_position it + 1)) < unat (it_size it - it_position it)"
    by (rule word_loop_step)
  with ObjectIterator_Next_fields [OF nxt]
  show "((E, attribute, it'), (E, attribute, it))
          \<in> measure (\<lambda>(E, attribute, it). unat (it_size it - it_position it))"
    by simp
qed

definition getFromCompactObject :: "env \<Rightarrow> Slice \<Rightarrow> gostring \<Rightarrow> error + Slice option" where
  "getFromCompactObject E s attribute =
     bnd (NewObjectIterator E s) (\<lambda>it. getFromCompactObjectLoop E attribute it)"

section \<open>Get\<close>

text \<open>
  \<open>Get\<close> returns \<open>None\<close> where the binary search does not return, \<open>Some (Inl e)\<close> for
  an error, \<open>Some (Inr None)\<close> for the None-Slice and \<open>Some (Inr (Some v))\<close> for a value.
  \<open>SortedSearchEntriesThreshold\<close> is 4.
\<close>

definition Get :: "env \<Rightarrow> Slice \<Rightarrow> gostring \<Rightarrow> (error + Slice option) option" where
  "Get E s attribute =
     (if \<not> IsObject s then Some (Inl InvalidTypeError)
      else
        (let h = head s in
         if h = 0x0a then Some (Inr None)
         else if h = 0x14 then Some (getFromCompactObject E s attribute)
         else
           (case
              bnd (indexEntrySize E h) (\<lambda>offsetSize.
              bnd (VELOCYPACK_ASSERT E (offsetSize > 0)) (\<lambda>_.
              bnd (sliceFrom s 1) (\<lambda>s1.
              bnd (readIntegerNonEmpty s1 offsetSize) (\<lambda>end.
              if offsetSize < 8 then
                bnd (sliceFrom s (1 + offsetSize)) (\<lambda>s2.
                bnd (readIntegerNonEmpty s2 offsetSize) (\<lambda>n.
                Inr (offsetSize, n, end - n * offsetSize)))
              else
                bnd (sliceFrom s (end - offsetSize)) (\<lambda>s2.
                bnd (readIntegerNonEmpty s2 offsetSize) (\<lambda>n.
                Inr (offsetSize, n, end - n * offsetSize - offsetSize)))))))
            of
              Inl e \<Rightarrow> Some (Inl e)
            | Inr (offsetSize, n, ieBase) \<Rightarrow>
                if n = 1 then
                  Some (bnd (findDataOffset E s h) (\<lambda>dataOffset.
                        bnd (sliceFrom s dataOffset) (\<lambda>key.
                        if IsString key then
                          bnd (IsEqualString E key attribute) (\<lambda>eq.
                          if eq then bnd (Next E key) (\<lambda>value. Inr (Some value))
                          else Inr None)
                        else if IsSmallInt key \<or> IsUInt key then
                          (case AttributeTranslator E of
                             None \<Rightarrow> Inl NeedAttributeTranslatorError
                           | Some IDToString \<Rightarrow>
                               bnd (translateUnchecked IDToString key) (\<lambda>translated.
                               bnd (IsEqualString E translated attribute) (\<lambda>eq.
                               if eq then bnd (Next E key) (\<lambda>value. Inr (Some value))
                               else Inr None)))
                        else Inr None)))
                else if n \<ge> 4 \<and> (h \<ge> 0x0b \<and> h \<le> 0x0e)
                        \<and> (offsetSize = 1 \<or> offsetSize = 2 \<or> offsetSize = 4 \<or> offsetSize = 8) then
                  searchObjectKeyBinary E s attribute ieBase n offsetSize
                else Some (searchObjectKeyLinear E s attribute ieBase offsetSize n))))"

section \<open>Reference readings\<close>

text \<open>
  The number a little-endian byte string denotes: byte \<open>i\<close> counts \<open>256 ^ i\<close> times.
\<close>

fun leValue :: "byte list \<Rightarrow> nat" where
  "leValue [] = 0"
| "leValue (b # bs) = unat b + 256 * leValue bs"

section \<open>Sample values\<close>

text \<open>
  An environment with assertions checked and no attribute translator, and the object
  \<open>{"a":"1","b":"2","c":"3"}\<close> of the package's tests in its sorted form with 1-byte
  offsets.
\<close>

definition E0 :: env where
  "E0 = \<lparr>asserts = True, AttributeTranslator = None, addressLimit = 100000\<rparr>"

definition o1 :: Slice where
  "o1 = [0x0b, 0x0f, 0x03, 0x41, 0x61, 0x31, 0x41, 0x62, 0x32, 0x41, 0x63, 0x33, 0x03, 0x06, 0x09]"


text \<open>
  The compact object \<open>{"a":"0","b":"1","c":"2","d":"3"}\<close> of the package's tests and the
  empty object.
\<close>

definition c1 :: Slice where
  "c1 = [0x14, 0x0f, 0x41, 0x61, 0x30, 0x41, 0x62, 0x31, 0x41, 0x63, 0x32, 0x41, 0x64, 0x33, 0x04]"

definition e1 :: Slice where
  "e1 = [0x0a]"

text \<open>
  An environment whose address limit is the largest \<open>int64\<close>, and a long string and a
  binary value whose length field holds \<open>2 ^ 64 - 1\<close>.
\<close>

definition E63 :: env where
  "E63 = \<lparr>asserts = True, AttributeTranslator = None, addressLimit = 2 ^ 63 - 1\<rparr>"

definition longString :: Slice where
  "longString = [0xbf, 0xff, 0xff, 0xff, 0xff, 0xff, 0xff, 0xff, 0xff]"

definition longBinary :: Slice where
  "longBinary = [0xc7, 0xff, 0xff, 0xff, 0xff, 0xff, 0xff, 0xff, 0xff]"

section \<open>Properties\<close>

subsection \<open>Helper facts\<close>

lemma VELOCYPACK_ASSERT_True [simp]: "VELOCYPACK_ASSERT E True = Inr ()"
  by (simp add: VELOCYPACK_ASSERT_def)

lemma bnd_eq_Inr: "bnd m f = Inr y \<longleftrightarrow> (\<exists>v. m = Inr v \<and> f v = Inr y)"
  by (cases m) simp_all

lemma IsObject_o1: "IsObject o1"
  by (simp add: IsObject_def Type_def head_def o1_def typeMap_def)

lemma Length_o1: "Length E0 o1 = Inr 3"
  by (simp add: Length_def o1_def E0_def VELOCYPACK_ASSERT_def IsObject_def IsArray_def
        Type_def head_def typeMap_def indexEntrySize_def widthMap_def sliceFrom_def
        readIntegerNonEmpty_def Let_def word_le_nat_alt word_less_nat_alt)

lemma leValue_bound: "leValue bs < 256 ^ length bs"
proof (induction bs)
  case Nil
  then show ?case by simp
next
  case (Cons b bs)
  have "unat b < 256" using unsigned_less [of b] by simp
  moreover from Cons have "leValue bs + 1 \<le> 256 ^ length bs" by simp
  then have "256 * (leValue bs + 1) \<le> 256 * 256 ^ length bs" by (rule mult_le_mono2)
  ultimately show ?case by simp
qed

lemma unat_readLE: "length bs \<le> 8 \<Longrightarrow> unat (readLE bs) = leValue bs"
proof (induction bs)
  case Nil
  then show ?case by simp
next
  case (Cons b bs)
  then have ih: "unat (readLE bs) = leValue bs" and len: "length bs \<le> 7" by simp_all
  have "leValue bs < 256 ^ length bs" by (rule leValue_bound)
  also have "\<dots> \<le> (256::nat) ^ 7" using len by (intro power_increasing) simp_all
  finally have b1: "leValue bs < 256 ^ 7" .
  have b2: "unat b < 256" using unsigned_less [of b] by simp
  have p: "unat (push_bit 8 (readLE bs)) = 256 * leValue bs"
    using b1 ih by (simp add: push_bit_eq_mult unat_word_ariths)
  have u: "unat (ucast b :: 64 word) = unat b" using b2 by (simp add: unsigned_ucast_eq take_bit_nat_eq_self)
  have "unat (ucast b + push_bit 8 (readLE bs)) = unat b + 256 * leValue bs"
    using b1 b2 p u by (simp add: unat_word_ariths)
  then show ?case by simp
qed


lemma bnd_eq_Inl: "bnd m f = Inl e \<longleftrightarrow> m = Inl e \<or> (\<exists>v. m = Inr v \<and> f v = Inl e)"
  by (cases m) simp_all

lemma sliceFrom_error: "sliceFrom s a = Inl e \<Longrightarrow> e = RuntimePanic"
  by (auto simp: sliceFrom_def split: if_splits)

lemma sliceRange_error: "sliceRange s a b = Inl e \<Longrightarrow> e = RuntimePanic"
  by (auto simp: sliceRange_def split: if_splits)

lemma readIntegerNonEmpty_error: "readIntegerNonEmpty s l = Inl e \<Longrightarrow> e = RuntimePanic"
  by (auto simp: readIntegerNonEmpty_def split: if_splits)

lemma VELOCYPACK_ASSERT_error: "VELOCYPACK_ASSERT E c = Inl e \<Longrightarrow> e = AssertionFailed"
  by (auto simp: VELOCYPACK_ASSERT_def split: if_splits)


lemma IsObject_c1: "IsObject c1"
  by (simp add: IsObject_def Type_def head_def c1_def typeMap_def)

lemma IsObject_e1: "IsObject e1"
  by (simp add: IsObject_def Type_def head_def e1_def typeMap_def)

lemma Length_e1: "Length E0 e1 = Inr 0"
  by (simp add: Length_def IsObject_e1 Let_def) (simp add: head_def e1_def)

lemma Length_c1: "Length E0 c1 = Inr 4"
  by (simp add: Length_def IsObject_c1 Let_def)
     (simp add: head_def c1_def readVariableValueLength_def sliceFrom_def)

lemma KeyAt_c1: "KeyAt E0 c1 0 False = Inr (drop 2 c1)"
  by (simp add: KeyAt_def IsObject_c1 getNthKey_def getNthOffset_def getNthOffsetFromCompact_def
        Let_def)
     (simp add: Type_def typeMap_def head_def c1_def readVariableValueLength_def sliceFrom_def)







subsection \<open>The value of an object member follows its key\<close>

lemma Next_bnd:
  "bnd m (\<lambda>key. bnd (ByteSize E key) (\<lambda>byteSize. sliceFrom key byteSize)) = bnd m (Next E)"
  by (cases m) (simp_all add: Next_def)

text \<open>
  C7: \<open>ValueAt(i)\<close> is \<open>Next\<close> applied to the untranslated \<open>KeyAt(i)\<close>, errors included;
  and where the \<open>i\<close>-th offset of an object is \<open>off\<close>, the key there has byte size \<open>sz\<close>
  and the slice reaches that far, \<open>ValueAt(i)\<close> is the slice that starts at \<open>off + sz\<close>.
\<close>

theorem ValueAt_after_key:
  "ValueAt E s i = bnd (KeyAt E s i False) (Next E) \<and>
   (IsObject s \<longrightarrow> getNthOffset E s i = Inr off \<longrightarrow>
      ByteSize E (drop (unat off) s) = Inr sz \<longrightarrow> unat off + unat sz \<le> length s \<longrightarrow>
      ValueAt E s i = Inr (drop (unat off + unat sz) s))"
proof (intro conjI impI)
  show "ValueAt E s i = bnd (KeyAt E s i False) (Next E)"
    by (simp add: ValueAt_def KeyAt_def Next_bnd)
next
  assume obj: "IsObject s" and off: "getNthOffset E s i = Inr off"
    and sz: "ByteSize E (drop (unat off) s) = Inr sz"
    and len: "unat off + unat sz \<le> length s"
  from len have l1: "unat off \<le> length s" and l2: "unat sz \<le> length s - unat off"
    by simp_all
  from obj have key: "getNthKey E s i False = Inr (drop (unat off) s)"
    using off l1 by (simp add: getNthKey_def IsObject_def VELOCYPACK_ASSERT_def sliceFrom_def)
  show "ValueAt E s i = Inr (drop (unat off + unat sz) s)"
    using obj key sz l2 by (simp add: ValueAt_def sliceFrom_def add.commute)
qed

theorem ValueAt_after_key_witness:
  "ValueAt E0 o1 1 = bnd (KeyAt E0 o1 1 False) (Next E0) \<and>
   IsObject o1 \<and> getNthOffset E0 o1 1 = Inr 6 \<and>
   ByteSize E0 (drop (unat (6 :: 64 word)) o1) = Inr 2 \<and>
   unat (6 :: 64 word) + unat (2 :: 64 word) \<le> length o1 \<and>
   ValueAt E0 o1 1 = Inr (drop (unat (6 :: 64 word) + unat (2 :: 64 word)) o1)"
proof -
  have a: "IsObject o1"
    by (simp add: IsObject_def Type_def head_def o1_def typeMap_def)
  have b: "getNthOffset E0 o1 1 = Inr 6"
    by (simp add: getNthOffset_def o1_def E0_def VELOCYPACK_ASSERT_def IsObject_def IsArray_def
        Type_def head_def typeMap_def indexEntrySize_def widthMap_def sliceFrom_def
        readIntegerNonEmpty_def Let_def word_le_nat_alt word_less_nat_alt)
  have c: "ByteSize E0 (drop (unat (6 :: 64 word)) o1) = Inr 2"
    by (simp add: ByteSize_def o1_def head_def fixedTypeLengths_def Let_def)
  have d: "unat (6 :: 64 word) + unat (2 :: 64 word) \<le> length o1"
    by (simp add: o1_def)
  from ValueAt_after_key [of E0 o1 1 6 2] a b c d show ?thesis by auto
qed

subsection \<open>The size field of an indexed container\<close>






subsection \<open>Index out of bounds\<close>

lemma getNthOffset_out_of_bounds:
  assumes len: "Length E s = Inr n" and idx: "n \<le> index"
  shows "getNthOffset E s index = Inl IndexOutOfBoundsError"
proof -
  from len have ty: "IsArray s \<or> IsObject s"
    by (auto simp: Length_def split: if_splits)
  then have a: "VELOCYPACK_ASSERT E (IsArray s \<or> IsObject s) = Inr ()"
    by (simp add: VELOCYPACK_ASSERT_def)
  consider (compact) "head s = 0x13 \<or> head s = 0x14"
    | (empty) "head s = 0x01 \<or> head s = 0x0a"
    | (indexed) "head s \<noteq> 0x13" "head s \<noteq> 0x14" "head s \<noteq> 0x01" "head s \<noteq> 0x0a"
    by blast
  then show ?thesis
  proof cases
    case compact
    with len ty idx show ?thesis
      by (auto simp: Length_def getNthOffset_def getNthOffsetFromCompact_def a Let_def bnd_eq_Inr)
  next
    case empty
    with a show ?thesis
      by (auto simp: getNthOffset_def Let_def)
  next
    case indexed
    with len ty idx show ?thesis
      by (auto simp: Length_def getNthOffset_def a Let_def bnd_eq_Inr add.commute
            split: if_splits)
  qed
qed


text \<open>
  C8: on an array or object of length \<open>n\<close> (\<open>Length\<close> returns \<open>n\<close>), \<open>At\<close> on the array,
  \<open>KeyAt\<close> and \<open>ValueAt\<close> on the object fail with index-out-of-bounds at every index
  \<open>n\<close> or above; compact and empty containers included.
\<close>

theorem index_out_of_bounds:
  assumes "Length E s = Inr n" and "n \<le> index"
  shows "(IsArray s \<longrightarrow> At E s index = Inl IndexOutOfBoundsError) \<and>
         (IsObject s \<longrightarrow> KeyAt E s index translate = Inl IndexOutOfBoundsError
                      \<and> ValueAt E s index = Inl IndexOutOfBoundsError)"
  using getNthOffset_out_of_bounds [OF assms]
  by (simp add: At_def KeyAt_def ValueAt_def getNth_def getNthKey_def IsObject_def)

theorem index_out_of_bounds_witness:
  "Length E0 o1 = Inr 3 \<and> IsObject o1 \<and> KeyAt E0 o1 3 True = Inl IndexOutOfBoundsError
     \<and> ValueAt E0 o1 3 = Inl IndexOutOfBoundsError"
  using index_out_of_bounds [of E0 o1 3 3 True] Length_o1 IsObject_o1 by simp

subsection \<open>Constructing an object iterator\<close>

text \<open>
  C6: on an object whose \<open>Length\<close> is \<open>n\<close>, \<open>NewObjectIterator\<close> returns the placeholder
  error where \<open>n > 0\<close> and the head is not \<open>0x14\<close>; it returns an iterator at position 0
  where the object is empty, and where the object is compact and its first key is read,
  with that key as \<open>current\<close>.
\<close>

theorem NewObjectIterator_placeholder:
  assumes "IsObject s" and "Length E s = Inr n"
  shows "(0 < n \<and> head s \<noteq> 0x14 \<longrightarrow> NewObjectIterator E s = Inl TodoError) \<and>
         (n = 0 \<longrightarrow> NewObjectIterator E s
              = Inr \<lparr>it_s = s, it_position = 0, it_size = 0, it_current = None\<rparr>) \<and>
         (0 < n \<and> head s = 0x14 \<and> KeyAt E s 0 False = Inr key \<longrightarrow> NewObjectIterator E s
              = Inr \<lparr>it_s = s, it_position = 0, it_size = n, it_current = Some key\<rparr>)"
  using assms by (simp add: NewObjectIterator_def Let_def)

theorem NewObjectIterator_placeholder_witness:
  "NewObjectIterator E0 o1 = Inl TodoError \<and>
   NewObjectIterator E0 e1 = Inr \<lparr>it_s = e1, it_position = 0, it_size = 0, it_current = None\<rparr> \<and>
   NewObjectIterator E0 c1
     = Inr \<lparr>it_s = c1, it_position = 0, it_size = 4, it_current = Some (drop 2 c1)\<rparr>"
proof -
  have h1: "head o1 \<noteq> 0x14" by (simp add: head_def o1_def)
  have h2: "head c1 = 0x14" by (simp add: head_def c1_def)
  from NewObjectIterator_placeholder [OF IsObject_o1 Length_o1, of undefined] h1
  have a: "NewObjectIterator E0 o1 = Inl TodoError" by simp
  from NewObjectIterator_placeholder [OF IsObject_e1 Length_e1, of undefined]
  have b: "NewObjectIterator E0 e1
             = Inr \<lparr>it_s = e1, it_position = 0, it_size = 0, it_current = None\<rparr>" by simp
  from NewObjectIterator_placeholder [OF IsObject_c1 Length_c1, of "drop 2 c1"] h2 KeyAt_c1
  have c: "NewObjectIterator E0 c1
     = Inr \<lparr>it_s = c1, it_position = 0, it_size = 4, it_current = Some (drop 2 c1)\<rparr>"
    by simp
  from a b c show ?thesis by simp
qed

subsection \<open>Lengths over the address limit\<close>

text \<open>
  C9, for \<open>GetString\<close>: a long string (head \<open>0xbf\<close>) whose 8-byte length field holds more
  than the address limit fails with overflow.
\<close>

theorem GetString_overflow:
  assumes "head s = 0xbf" and "9 \<le> length s"
    and "addressLimit E < leValue (take 8 (drop 1 s))"
  shows "GetString E s = Inl OverflowError"
proof -
  have "unat (readLE (take 8 (drop 1 s))) = leValue (take 8 (drop 1 s))"
    by (rule unat_readLE) simp
  with assms show ?thesis
    by (simp add: GetString_def sliceFrom_def readIntegerFixed_def readIntegerNonEmpty_def
          checkOverflow_def)
qed

lemma leValue_ff: "leValue (take 8 (drop 1 longString)) = 2 ^ 64 - 1"
  by (simp add: longString_def)

theorem GetString_overflow_witness:
  "head longString = 0xbf \<and> 9 \<le> length longString \<and>
   addressLimit E63 < leValue (take 8 (drop 1 longString)) \<and>
   GetString E63 longString = Inl OverflowError"
proof -
  have a: "head longString = 0xbf" by (simp add: head_def longString_def)
  have b: "9 \<le> length longString" by (simp add: longString_def)
  have c: "addressLimit E63 < leValue (take 8 (drop 1 longString))"
    unfolding leValue_ff by (simp add: E63_def)
  from GetString_overflow [OF a b c] a b c show ?thesis by simp
qed

text \<open>
  \<open>GetBinary\<close> drops the result of \<open>checkOverflow\<close>: no call of it returns overflow.
\<close>

lemma GetBinary_never_overflow: "GetBinary E s \<noteq> Inl OverflowError"
  by (auto simp: GetBinary_def Let_def bnd_eq_Inl
        dest: sliceFrom_error sliceRange_error readIntegerNonEmpty_error VELOCYPACK_ASSERT_error)

text \<open>
  On the binary value with length field \<open>2 ^ 64 - 1\<close>, where \<open>checkOverflow\<close> reports
  overflow, \<open>GetBinary\<close> goes on to \<open>s[9:8]\<close> and panics.
\<close>

theorem GetBinary_overflow_dropped:
  "IsBinary longBinary \<and>
   checkOverflow E63 (readLE (take 8 (drop 1 longBinary))) = Inl OverflowError \<and>
   GetBinary E63 longBinary = Inl RuntimePanic"
proof -
  have a: "IsBinary longBinary"
    by (simp add: IsBinary_def Type_def head_def longBinary_def typeMap_def)
  have r: "readLE (take 8 (drop 1 longBinary)) = 0xffffffffffffffff"
    by (simp add: longBinary_def)
  have b: "checkOverflow E63 (readLE (take 8 (drop 1 longBinary))) = Inl OverflowError"
    unfolding r by (simp add: checkOverflow_def E63_def)
  have h: "head longBinary = 0xc7" by (simp add: head_def longBinary_def)
  have l: "length longBinary = 9" by (simp add: longBinary_def)
  have c: "GetBinary E63 longBinary = Inl RuntimePanic"
    by (simp add: GetBinary_def a h Let_def) (simp add: longBinary_def sliceFrom_def
          readIntegerNonEmpty_def sliceRange_def)
  from a b c show ?thesis by simp
qed

subsection \<open>GetSmallInt on Int and UInt heads\<close>



end
